theory Spec2Isabelle
  imports Complex_Main "HOL-Library.Word"
begin

section \<open>Strings, paths and exceptions\<close>

text \<open>
  Python strings are modelled as lists of 8-bit characters (the code points below 256);
  only the ASCII letters have a lower-case form.  A \<open>pathlib.Path\<close> is the list of its
  components, the last one being the file name.  An exception of the operating system
  carries the file names it was raised with.
\<close>

type_synonym byte = "8 word"
type_synonym path = "string list"

datatype exn =
    FileNotFoundError "string list"
  | PermissionError "string list"
  | IsADirectoryError "string list"
  | NotADirectoryError "string list"
  | FileExistsError "string list"
  | SameFileError "string list"
  | ShutilError "string list"
  | ValueError
  | OverflowError
  | UnidentifiedImageError
  | InputStreamError

definition lower_char :: "char \<Rightarrow> char" where
  "lower_char c =
     (case map_of (zip ''ABCDEFGHIJKLMNOPQRSTUVWXYZ'' ''abcdefghijklmnopqrstuvwxyz'') c of
        Some l \<Rightarrow> l
      | None \<Rightarrow> c)"

definition lower :: "string \<Rightarrow> string" where
  "lower s = map lower_char s"

text \<open>\<open>str.rfind('.')\<close>: the index of the last dot, or \<open>-1\<close>.\<close>

definition rfind_dot :: "string \<Rightarrow> int" where
  "rfind_dot s =
     (if CHR ''.'' \<in> set s
      then int (length s) - 1 - int (length (takeWhile (\<lambda>c. c \<noteq> CHR ''.'') (rev s)))
      else - 1)"

text \<open>\<open>PurePath.suffix\<close> and \<open>PurePath.stem\<close> of a file name.\<close>

definition suffix :: "string \<Rightarrow> string" where
  "suffix nm =
     (let i = rfind_dot nm in
      if 0 < i \<and> i < int (length nm) - 1 then drop (nat i) nm else [])"

definition stem :: "string \<Rightarrow> string" where
  "stem nm =
     (let i = rfind_dot nm in
      if 0 < i \<and> i < int (length nm) - 1 then take (nat i) nm else nm)"

definition name :: "path \<Rightarrow> string" where
  "name p = (if p = [] then [] else last p)"

definition parent :: "path \<Rightarrow> path" where
  "parent p = butlast p"

text \<open>
  \<open>PurePath.with_name\<close> raises \<open>ValueError\<close> when the path has no name or when the new
  name is empty, is a single dot or holds a path separator.
\<close>

definition with_name :: "path \<Rightarrow> string \<Rightarrow> exn + path" where
  "with_name p nm =
     (if name p = [] then Inl ValueError
      else if nm = [] \<or> CHR ''/'' \<in> set nm \<or> nm = ''.'' then Inl ValueError
      else Inr (parent p @ [nm]))"

text \<open>\<open>str(path)\<close>: the components joined by the separator.\<close>

fun str_path :: "path \<Rightarrow> string" where
  "str_path [] = ''.''"
| "str_path [c] = c"
| "str_path (c # cs) = c @ ''/'' @ str_path cs"

text \<open>\<open>s[:n]\<close> for a Python integer \<open>n\<close>; a negative bound counts from the end.\<close>

definition slice_to :: "int \<Rightarrow> string \<Rightarrow> string" where
  "slice_to n s = (if 0 \<le> n then take (nat n) s else take (nat (int (length s) + n)) s)"

section \<open>The file system\<close>

text \<open>
  The file system is an association list from paths to nodes (the first binding of a path
  counts).  A regular file has its content, its modification time (the float
  \<open>st_mtime\<close>, a real number of seconds since the epoch) and a flag telling whether it may
  be opened for reading; a directory has a flag telling whether entries may be added to
  or removed from it; a dangling symbolic link holds a text, an absolute path outside the
  directories of the run at which there is nothing: it is listed by its directory but
  cannot be opened or followed, wherever it is moved.
\<close>

datatype node =
    File (content: "byte list") (mtime: real) (readable: bool)
  | Dir (writable: bool) (dmtime: real)
  | Dangling (link: string)

type_synonym filesystem = "(path \<times> node) list"

text \<open>\<open>Path.exists\<close> follows links: a dangling link does not exist.\<close>

definition exists :: "filesystem \<Rightarrow> path \<Rightarrow> bool" where
  "exists fs p =
     (case map_of fs p of None \<Rightarrow> False | Some (Dangling l) \<Rightarrow> False | Some _ \<Rightarrow> True)"

text \<open>\<open>open(path, "rb")\<close> followed by reading the whole file.\<close>

definition open_rb :: "filesystem \<Rightarrow> path \<Rightarrow> exn + byte list" where
  "open_rb fs p =
     (case map_of fs p of
        None \<Rightarrow> Inl (FileNotFoundError [str_path p])
      | Some (Dangling l) \<Rightarrow> Inl (FileNotFoundError [str_path p])
      | Some (Dir w t) \<Rightarrow> Inl (IsADirectoryError [str_path p])
      | Some (File c t r) \<Rightarrow> if r then Inr c else Inl (PermissionError [str_path p]))"

text \<open>\<open>path.stat().st_mtime\<close>.\<close>

definition stat_mtime :: "filesystem \<Rightarrow> path \<Rightarrow> exn + real" where
  "stat_mtime fs p =
     (case map_of fs p of
        None \<Rightarrow> Inl (FileNotFoundError [str_path p])
      | Some (Dangling l) \<Rightarrow> Inl (FileNotFoundError [str_path p])
      | Some (Dir w t) \<Rightarrow> Inr t
      | Some (File c t r) \<Rightarrow> Inr t)"

text \<open>
  The root, when the list does not bind it, is a directory that can be written to.
\<close>

definition is_dir :: "filesystem \<Rightarrow> path \<Rightarrow> bool" where
  "is_dir fs p =
     (case map_of fs p of None \<Rightarrow> p = [] | Some (Dir w t) \<Rightarrow> True | Some _ \<Rightarrow> False)"

definition dir_writable :: "filesystem \<Rightarrow> path \<Rightarrow> bool" where
  "dir_writable fs p =
     (case map_of fs p of None \<Rightarrow> p = [] | Some (Dir w t) \<Rightarrow> w | Some _ \<Rightarrow> False)"

text \<open>Adding or removing the entry \<open>p\<close> needs its directory, and the right to write there.\<close>

definition check_parent :: "filesystem \<Rightarrow> path \<Rightarrow> exn option" where
  "check_parent fs p =
     (if \<not> is_dir fs (parent p) then Some (FileNotFoundError [str_path p])
      else if \<not> dir_writable fs (parent p) then Some (PermissionError [str_path p])
      else None)"

text \<open>\<open>p\<close> is \<open>d\<close> or lies beneath it.\<close>

definition under :: "path \<Rightarrow> path \<Rightarrow> bool" where
  "under d p = (take (length d) p = d)"

text \<open>
  \<open>shutil.move\<close> and \<open>shutil.copy2\<close> put the source inside the destination when that is
  a directory.
\<close>

definition real_dst :: "filesystem \<Rightarrow> path \<Rightarrow> path \<Rightarrow> path" where
  "real_dst fs src dst = (if is_dir fs dst then dst @ [name src] else dst)"

text \<open>
  \<open>os.walk\<close>: one triple (directory, names of its sub-directories, names of its other
  entries) for the base directory and for every directory reached from it through
  directories.  Links are not followed.
\<close>

definition children :: "filesystem \<Rightarrow> path \<Rightarrow> string list" where
  "children fs d = remdups (map (last \<circ> fst) (filter (\<lambda>(p, n). p \<noteq> [] \<and> butlast p = d) fs))"

definition walk_dirs :: "filesystem \<Rightarrow> path \<Rightarrow> path list" where
  "walk_dirs fs base =
     base # filter (\<lambda>p. length base < length p \<and> under base p \<and>
                        list_all (\<lambda>k. is_dir fs (take k p)) [length base..<Suc (length p)])
              (remdups (map fst fs))"

definition os_walk :: "filesystem \<Rightarrow> path \<Rightarrow> (path \<times> string list \<times> string list) list" where
  "os_walk fs base =
     (if is_dir fs base
      then map (\<lambda>d. (d, filter (\<lambda>c. is_dir fs (d @ [c])) (children fs d),
                        filter (\<lambda>c. \<not> is_dir fs (d @ [c])) (children fs d)))
             (walk_dirs fs base)
      else [])"

section \<open>Dates and times\<close>

text \<open>
  A \<open>datetime.datetime\<close> value.  The constructor of the Python class refuses fields out
  of range, so every value that reaches the program has passed \<open>datetime_new\<close>.
\<close>

record datetime =
  year :: nat
  month :: nat
  day :: nat
  hour :: nat
  minute :: nat
  second :: nat

definition is_leap :: "nat \<Rightarrow> bool" where
  "is_leap y = (y mod 4 = 0 \<and> (y mod 100 \<noteq> 0 \<or> y mod 400 = 0))"

definition days_in_month :: "nat \<Rightarrow> nat \<Rightarrow> nat" where
  "days_in_month y m =
     (if m = 2 then (if is_leap y then 29 else 28)
      else if m = 4 \<or> m = 6 \<or> m = 9 \<or> m = 11 then 30 else 31)"

definition valid_datetime :: "datetime \<Rightarrow> bool" where
  "valid_datetime d =
     (1 \<le> year d \<and> year d \<le> 9999 \<and> 1 \<le> month d \<and> month d \<le> 12 \<and>
      1 \<le> day d \<and> day d \<le> days_in_month (year d) (month d) \<and>
      hour d < 24 \<and> minute d < 60 \<and> second d < 60)"

definition datetime_new ::
  "nat \<Rightarrow> nat \<Rightarrow> nat \<Rightarrow> nat \<Rightarrow> nat \<Rightarrow> nat \<Rightarrow> exn + datetime" where
  "datetime_new y mo d h mi s =
     (let dt = \<lparr>year = y, month = mo, day = d, hour = h, minute = mi, second = s\<rparr> in
      if valid_datetime dt then Inr dt else Inl ValueError)"

text \<open>Decimal digits, \<open>str(n)\<close> of a natural number and zero padding to a width.\<close>

definition digit_char :: "nat \<Rightarrow> char" where
  "digit_char d = ''0123456789'' ! d"

definition is_digit :: "char \<Rightarrow> bool" where
  "is_digit c = (c \<in> set ''0123456789'')"

definition digit_val :: "char \<Rightarrow> nat" where
  "digit_val c = length (takeWhile (\<lambda>x. x \<noteq> c) ''0123456789'')"

fun str_nat :: "nat \<Rightarrow> string" where
  "str_nat n = (if n < 10 then [digit_char n] else str_nat (n div 10) @ [digit_char (n mod 10)])"

declare str_nat.simps [simp del]

definition num_val :: "string \<Rightarrow> nat" where
  "num_val s = foldl (\<lambda>a c. 10 * a + digit_val c) 0 s"

definition zfill :: "nat \<Rightarrow> string \<Rightarrow> string" where
  "zfill w s = replicate (w - length s) (CHR ''0'') @ s"

text \<open>
  \<open>dt.strftime\<close> for the formats the program uses, as the C library renders them: the
  year is written without padding (three digits for the year 999), the other fields with
  two digits.
\<close>

definition strftime_Y :: "datetime \<Rightarrow> string" where
  "strftime_Y d = str_nat (year d)"

definition strftime_m :: "datetime \<Rightarrow> string" where
  "strftime_m d = zfill 2 (str_nat (month d))"

definition strftime_d :: "datetime \<Rightarrow> string" where
  "strftime_d d = zfill 2 (str_nat (day d))"

definition strftime_Ymd_HMS :: "datetime \<Rightarrow> string" where
  "strftime_Ymd_HMS d =
     strftime_Y d @ strftime_m d @ strftime_d d @ ''_'' @
     zfill 2 (str_nat (hour d)) @ zfill 2 (str_nat (minute d)) @ zfill 2 (str_nat (second d))"

text \<open>
  \<open>datetime.strptime(s, "%Y:%m:%d %H:%M:%S")\<close>.  The library compiles the format to the
  regular expression
  \<^verbatim>\<open>(\d\d\d\d):(1[0-2]|0[1-9]|[1-9]):(3[0-1]|[1-2]\d|0[1-9]|[1-9]| [1-9])\s+\<close>
  \<^verbatim>\<open>(2[0-3]|[0-1]\d|\d):([0-5]\d|\d):(6[0-1]|[0-5]\d|\d)\<close>,
  refuses text left over after the match, and builds the value with the constructor.
  Each field is followed by a character that is not a digit, so a field is the run of
  digits up to it; every failure is a \<open>ValueError\<close>.
\<close>

definition p_year :: "string \<Rightarrow> (nat \<times> string) option" where
  "p_year s =
     (if 4 \<le> length s \<and> (\<forall>c \<in> set (take 4 s). is_digit c)
      then Some (num_val (take 4 s), drop 4 s) else None)"

definition p_num :: "nat \<Rightarrow> nat \<Rightarrow> string \<Rightarrow> (nat \<times> string) option" where
  "p_num lo hi s =
     (let t = takeWhile is_digit s; v = num_val t in
      if (length t = 1 \<or> length t = 2) \<and> lo \<le> v \<and> v \<le> hi
      then Some (v, drop (length t) s) else None)"

definition p_day :: "string \<Rightarrow> (nat \<times> string) option" where
  "p_day s =
     (case s of
        c # d # rest \<Rightarrow>
          if c = CHR '' '' \<and> is_digit d \<and> d \<noteq> CHR ''0'' then Some (digit_val d, rest)
          else p_num 1 31 s
      | _ \<Rightarrow> p_num 1 31 s)"

definition p_lit :: "char \<Rightarrow> string \<Rightarrow> string option" where
  "p_lit c s = (case s of [] \<Rightarrow> None | x # xs \<Rightarrow> if x = c then Some xs else None)"

text \<open>
  The characters below 256 that \<open>\s\<close> matches in a pattern on \<open>str\<close>: those for which
  \<open>str.isspace\<close> holds.
\<close>

definition is_space :: "char \<Rightarrow> bool" where
  "is_space c =
     (c \<in> set [CHR '' '', CHR 0x09, CHR 0x0A, CHR 0x0B, CHR 0x0C, CHR 0x0D,
                CHR 0x1C, CHR 0x1D, CHR 0x1E, CHR 0x1F, CHR 0x85, CHR 0xA0])"

definition p_spaces :: "string \<Rightarrow> string option" where
  "p_spaces s = (let t = takeWhile is_space s in if t = [] then None else Some (drop (length t) s))"

definition parse_fields :: "string \<Rightarrow> (nat \<times> nat \<times> nat \<times> nat \<times> nat \<times> nat) option" where
  "parse_fields s0 =
     Option.bind (p_year s0) (\<lambda>(y, s1).
     Option.bind (p_lit (CHR '':'') s1) (\<lambda>s2.
     Option.bind (p_num 1 12 s2) (\<lambda>(mo, s3).
     Option.bind (p_lit (CHR '':'') s3) (\<lambda>s4.
     Option.bind (p_day s4) (\<lambda>(d, s5).
     Option.bind (p_spaces s5) (\<lambda>s6.
     Option.bind (p_num 0 23 s6) (\<lambda>(h, s7).
     Option.bind (p_lit (CHR '':'') s7) (\<lambda>s8.
     Option.bind (p_num 0 59 s8) (\<lambda>(mi, s9).
     Option.bind (p_lit (CHR '':'') s9) (\<lambda>s10.
     Option.bind (p_num 0 61 s10) (\<lambda>(sec, s11).
     if s11 = [] then Some (y, mo, d, h, mi, sec) else None)))))))))))"

definition strptime :: "string \<Rightarrow> exn + datetime" where
  "strptime s =
     (case parse_fields s of
        None \<Rightarrow> Inl ValueError
      | Some (y, mo, d, h, mi, sec) \<Rightarrow> datetime_new y mo d h mi sec)"

section \<open>Library functions taken as parameters\<close>

text \<open>
  The hash function, the two metadata decoders, the conversion of a time to the local
  calendar and the text of an exception belong to libraries and to the platform.  They are
  parameters of the model: \<open>md5\<close> maps a byte string to its 128-bit digest; \<open>getexif\<close>
  decodes an image into its EXIF dictionary (tag number, value) or raises;
  \<open>creation_date\<close> decodes a video container into the six fields of its creation date,
  into nothing, or raises; \<open>localtime\<close> gives the six fields that
  \<open>datetime.fromtimestamp\<close> computes for a float, or raises; \<open>str_exn\<close> is \<open>str(e)\<close>;
  \<open>move_tree\<close> is \<open>shutil.move\<close> for a source that is a directory, with the exception
  it raised, if any, and the file system it leaves.
\<close>

record libs =
  md5 :: "byte list \<Rightarrow> 128 word"
  getexif :: "byte list \<Rightarrow> exn + (int \<times> string) list"
  creation_date :: "byte list \<Rightarrow> exn + (nat \<times> nat \<times> nat \<times> nat \<times> nat \<times> nat) option"
  localtime :: "real \<Rightarrow> exn + (nat \<times> nat \<times> nat \<times> nat \<times> nat \<times> nat)"
  str_exn :: "exn \<Rightarrow> string"
  move_tree :: "filesystem \<Rightarrow> path \<Rightarrow> path \<Rightarrow> exn option \<times> filesystem"

text \<open>\<open>datetime.fromtimestamp(t)\<close>: the value is built by the constructor.\<close>

definition fromtimestamp :: "libs \<Rightarrow> real \<Rightarrow> exn + datetime" where
  "fromtimestamp L t =
     (case localtime L t of
        Inl e \<Rightarrow> Inl e
      | Inr (y, mo, d, h, mi, s) \<Rightarrow> datetime_new y mo d h mi s)"

text \<open>
  A concrete instance for the evaluations below: the digest agrees with MD5 on the empty
  input; the one-byte contents 1, 2, 3 and 5 stand for an image with a capture time and a
  model, an image with a model only, an image whose capture time is malformed and an
  image taken in the year 999; the one-byte content 4 stands for a video with a creation
  date; the empty content is rejected by both decoders.  The machine is on UTC, and the
  instance knows the local time of one instant, noon of the first of May 2023.  The text
  of an exception of the operating system is its message and its file names between
  quotes (names that \<open>repr\<close> leaves as they are); the move of a directory is refused.
\<close>

fun quoted :: "string list \<Rightarrow> string" where
  "quoted [] = []"
| "quoted [n] = [CHR 0x27] @ n @ [CHR 0x27]"
| "quoted (n # ns) = [CHR 0x27] @ n @ [CHR 0x27] @ '' -> '' @ quoted ns"

definition example_libs :: libs where
  "example_libs =
     \<lparr>md5 = (\<lambda>bs. if bs = [] then 0xd41d8cd98f00b204e9800998ecf8427e else 0),
      getexif = (\<lambda>bs.
        if bs = [] then Inl UnidentifiedImageError
        else if bs = [1] then Inr [(36867, ''2024:01:23 10:15:30''), (272, ''Pixel 7'')]
        else if bs = [2] then Inr [(272, ''Pixel 7'')]
        else if bs = [3] then Inr [(36867, ''2024-01-23''), (272, ''Pixel 7'')]
        else if bs = [5] then Inr [(36867, ''0999:01:01 00:00:00'')]
        else Inr []),
      creation_date = (\<lambda>bs.
        if bs = [] then Inl InputStreamError
        else if bs = [4] then Inr (Some (2023, 5, 1, 12, 0, 0))
        else Inr None),
      localtime = (\<lambda>t. if t = 1682942400 then Inr (2023, 5, 1, 12, 0, 0) else Inl OverflowError),
      str_exn = (\<lambda>e.
        case e of
          FileNotFoundError ns \<Rightarrow> ''[Errno 2] No such file or directory: '' @ quoted ns
        | PermissionError ns \<Rightarrow> ''[Errno 13] Permission denied: '' @ quoted ns
        | IsADirectoryError ns \<Rightarrow> ''[Errno 21] Is a directory: '' @ quoted ns
        | NotADirectoryError ns \<Rightarrow> ''[Errno 20] Not a directory: '' @ quoted ns
        | FileExistsError ns \<Rightarrow> ''[Errno 17] File exists: '' @ quoted ns
        | _ \<Rightarrow> []),
      move_tree = (\<lambda>fs src dst. (Some (PermissionError [str_path src]), fs))\<rparr>"

section \<open>Changing the file system\<close>

text \<open>
  \<open>os.rename\<close> of a regular file: the entry replaces whatever the destination holds,
  unless that is a directory.
\<close>

definition os_rename :: "filesystem \<Rightarrow> path \<Rightarrow> path \<Rightarrow> exn + filesystem" where
  "os_rename fs src dst =
     (case map_of fs src of
        None \<Rightarrow> Inl (FileNotFoundError [str_path src, str_path dst])
      | Some n \<Rightarrow>
          (case check_parent fs src of
             Some e \<Rightarrow> Inl e
           | None \<Rightarrow>
               (case check_parent fs dst of
                  Some e \<Rightarrow> Inl e
                | None \<Rightarrow>
                    if is_dir fs dst then Inl (IsADirectoryError [str_path src, str_path dst])
                    else Inr ((dst, n) # filter (\<lambda>(p, m). p \<noteq> src \<and> p \<noteq> dst) fs))))"

text \<open>\<open>os.unlink\<close>.\<close>

definition unlink :: "filesystem \<Rightarrow> path \<Rightarrow> exn + filesystem" where
  "unlink fs p =
     (case map_of fs p of
        None \<Rightarrow> Inl (FileNotFoundError [str_path p])
      | Some (Dir w t) \<Rightarrow> Inl (IsADirectoryError [str_path p])
      | Some n \<Rightarrow>
          (case check_parent fs p of
             Some e \<Rightarrow> Inl e
           | None \<Rightarrow> Inr (filter (\<lambda>(q, m). q \<noteq> p) fs)))"

text \<open>
  \<open>shutil.copy2\<close>: content and modification time are copied.  Copying a file onto
  itself is refused.
\<close>

definition copy2 :: "filesystem \<Rightarrow> path \<Rightarrow> path \<Rightarrow> exn + filesystem" where
  "copy2 fs src dst =
     (let rd = real_dst fs src dst in
      if rd = src \<and> exists fs src then Inl (SameFileError [str_path src, str_path rd])
      else
        case open_rb fs src of
          Inl e \<Rightarrow> Inl e
        | Inr bs \<Rightarrow>
            (case check_parent fs rd of
               Some e \<Rightarrow> Inl e
             | None \<Rightarrow>
                 (case stat_mtime fs src of
                    Inl e \<Rightarrow> Inl e
                  | Inr t \<Rightarrow> Inr ((rd, File bs t True) # filter (\<lambda>(p, m). p \<noteq> rd) fs))))"

text \<open>\<open>os.symlink(l, p)\<close>: a new link with the text \<open>l\<close>.\<close>

definition symlink :: "filesystem \<Rightarrow> string \<Rightarrow> path \<Rightarrow> exn + filesystem" where
  "symlink fs l p =
     (if map_of fs p \<noteq> None then Inl (FileExistsError [l, str_path p])
      else if \<not> is_dir fs (parent p) then Inl (FileNotFoundError [l, str_path p])
      else if \<not> dir_writable fs (parent p) then Inl (PermissionError [l, str_path p])
      else Inr ((p, Dangling l) # fs))"

text \<open>
  \<open>shutil.move\<close>: the exception it raised, if any, and the file system it leaves.  When
  the destination is a directory the source goes inside, unless the name is taken there.
  The source is renamed; when that fails, a link is made anew and a regular file is
  copied, and then the source is removed, so that a failure of the removal leaves the
  copy behind.
\<close>

definition move :: "libs \<Rightarrow> filesystem \<Rightarrow> path \<Rightarrow> path \<Rightarrow> exn option \<times> filesystem" where
  "move L fs src dst =
     (case map_of fs src of
        Some (Dir w t) \<Rightarrow> move_tree L fs src dst
      | n \<Rightarrow>
          let rd = real_dst fs src dst in
          if is_dir fs dst \<and> exists fs rd then (Some (ShutilError [str_path rd]), fs)
          else
            case os_rename fs src rd of
              Inr fs1 \<Rightarrow> (None, fs1)
            | Inl e \<Rightarrow>
                (case (case n of
                         Some (Dangling l) \<Rightarrow> symlink fs l rd
                       | _ \<Rightarrow> copy2 fs src rd) of
                   Inl e1 \<Rightarrow> (Some e1, fs)
                 | Inr fs1 \<Rightarrow>
                     (case unlink fs1 src of
                        Inl e2 \<Rightarrow> (Some e2, fs1)
                      | Inr fs2 \<Rightarrow> (None, fs2))))"

text \<open>
  \<open>Path.mkdir(parents=True, exist_ok=True)\<close>: every missing directory on the way is
  created; the directories made before a failure stay.  A file on the way makes the
  system call on the whole path fail; a dangling link on the way is found when its own
  directory is to be made.
\<close>

fun mkdir_from :: "filesystem \<Rightarrow> path \<Rightarrow> string list \<Rightarrow> exn option \<times> filesystem" where
  "mkdir_from fs pre [] = (None, fs)"
| "mkdir_from fs pre (c # cs) =
     (case map_of fs (pre @ [c]) of
        Some (Dir w t) \<Rightarrow> mkdir_from fs (pre @ [c]) cs
      | Some (File b t r) \<Rightarrow>
          (Some (if cs = [] then FileExistsError [str_path (pre @ [c])]
                 else NotADirectoryError [str_path (pre @ c # cs)]), fs)
      | Some (Dangling l) \<Rightarrow> (Some (FileExistsError [str_path (pre @ [c])]), fs)
      | None \<Rightarrow>
          if dir_writable fs pre then mkdir_from ((pre @ [c], Dir True 0) # fs) (pre @ [c]) cs
          else (Some (PermissionError [str_path (pre @ [c])]), fs))"

definition mkdir_parents :: "filesystem \<Rightarrow> path \<Rightarrow> exn option \<times> filesystem" where
  "mkdir_parents fs d = mkdir_from fs [] d"

section \<open>utils.py\<close>

definition SUPPORTED_EXTENSIONS :: "string set" where
  "SUPPORTED_EXTENSIONS =
     {''.jpg'', ''.jpeg'', ''.png'', ''.mp4'', ''.mov'', ''.avi'', ''.heic''}"

definition HASH_LENGTH :: int where
  "HASH_LENGTH = 8"

definition hexchar :: "nat \<Rightarrow> char" where
  "hexchar d = ''0123456789abcdef'' ! d"

fun hex_digits :: "nat \<Rightarrow> int \<Rightarrow> string" where
  "hex_digits k n =
     (if k = 0 then [] else hex_digits (k - 1) (n div 16) @ [hexchar (nat (n mod 16))])"

declare hex_digits.simps [simp del]

text \<open>\<open>hexdigest()\<close>: the 128-bit digest as 32 lower-case hexadecimal digits.\<close>

definition hexdigest :: "128 word \<Rightarrow> string" where
  "hexdigest w = hex_digits 32 (uint w)"

text \<open>\<open>iter(lambda: f.read(8192), b"")\<close>: the content in chunks, up to the empty read.\<close>

fun read_chunks :: "byte list \<Rightarrow> byte list list" where
  "read_chunks bs = (if bs = [] then [] else take 8192 bs # read_chunks (drop 8192 bs))"

declare read_chunks.simps [simp del]

text \<open>
  The hash object holds the bytes fed to it so far; \<open>update\<close> appends a chunk.
  An I/O failure is the failure of \<open>open_rb\<close>.
\<close>

definition compute_file_hash :: "libs \<Rightarrow> filesystem \<Rightarrow> path \<Rightarrow> int \<Rightarrow> string" where
  "compute_file_hash L fs p hash_length =
     (case open_rb fs p of
        Inr bs \<Rightarrow>
          slice_to hash_length (hexdigest (md5 L (foldl (\<lambda>acc chunk. acc @ chunk) [] (read_chunks bs))))
      | Inl e \<Rightarrow> slice_to hash_length ''00000000'')"

text \<open>\<open>try: body except Exception: handler\<close>.\<close>

definition try_except :: "exn + 'a \<Rightarrow> (exn \<Rightarrow> exn + 'a) \<Rightarrow> exn + 'a" where
  "try_except body handler = (case body of Inl e \<Rightarrow> handler e | Inr v \<Rightarrow> Inr v)"

text \<open>\<open>s.replace(" ", "_")\<close>.\<close>

definition replace_spaces :: "string \<Rightarrow> string" where
  "replace_spaces s = map (\<lambda>c. if c = CHR '' '' then CHR ''_'' else c) s"

text \<open>
  The body of \<open>get_exif_datetime\<close> once the image is decoded: tag 36867 is
  DateTimeOriginal, 306 is DateTime, 272 is Model.
\<close>

definition exif_fields :: "(int \<times> string) list \<Rightarrow> exn + (datetime option \<times> string)" where
  "exif_fields exif =
     (if exif = [] then Inr (None, ''Unknown'')
      else
        case (case map_of exif 36867 of
                Some v \<Rightarrow> map_sum id Some (strptime v)
              | None \<Rightarrow>
                  (case map_of exif 306 of
                     Some v \<Rightarrow> map_sum id Some (strptime v)
                   | None \<Rightarrow> Inr None)) of
          Inl e \<Rightarrow> Inl e
        | Inr dt \<Rightarrow>
            Inr (dt, case map_of exif 272 of
                       Some v \<Rightarrow> replace_spaces v
                     | None \<Rightarrow> ''Unknown''))"

definition get_exif_datetime ::
  "libs \<Rightarrow> filesystem \<Rightarrow> path \<Rightarrow> exn + (datetime option \<times> string)" where
  "get_exif_datetime L fs p =
     try_except
       (case open_rb fs p of
          Inl e \<Rightarrow> Inl e
        | Inr bs \<Rightarrow> (case getexif L bs of Inl e \<Rightarrow> Inl e | Inr exif \<Rightarrow> exif_fields exif))
       (\<lambda>e. Inr (None, ''Unknown''))"

definition get_video_datetime :: "libs \<Rightarrow> filesystem \<Rightarrow> path \<Rightarrow> exn + datetime option" where
  "get_video_datetime L fs p =
     try_except
       (case open_rb fs p of
          Inl e \<Rightarrow> Inl e
        | Inr bs \<Rightarrow>
            (case creation_date L bs of
               Inl e \<Rightarrow> Inl e
             | Inr None \<Rightarrow> Inr None
             | Inr (Some (y, mo, d, h, mi, sec)) \<Rightarrow> map_sum id Some (datetime_new y mo d h mi sec)))
       (\<lambda>e. Inr None)"

definition get_file_datetime ::
  "libs \<Rightarrow> filesystem \<Rightarrow> path \<Rightarrow> exn + (datetime option \<times> string)" where
  "get_file_datetime L fs p =
     (let ext = lower (suffix (name p)) in
      if ext \<in> {''.jpg'', ''.jpeg'', ''.png'', ''.heic''} then get_exif_datetime L fs p
      else if ext \<in> {''.mp4'', ''.mov'', ''.avi''} then
        (case get_video_datetime L fs p of
           Inl e \<Rightarrow> Inl e
         | Inr dt \<Rightarrow> Inr (dt, ''Unknown''))
      else Inr (None, ''Unknown''))"

section \<open>main.py\<close>

definition collect_files :: "filesystem \<Rightarrow> path \<Rightarrow> path list" where
  "collect_files fs base_dir =
     concat (map (\<lambda>(root, dirnames, filenames).
                    map (\<lambda>f. root @ [f])
                      (filter (\<lambda>f. lower (suffix f) \<in> SUPPORTED_EXTENSIONS) filenames))
               (os_walk fs base_dir))"

text \<open>The name tried at step \<open>i\<close> of the duplicate loop: \<open>f"{base}_dup{i}{ext}"\<close>.\<close>

definition dup_name :: "string \<Rightarrow> string \<Rightarrow> nat \<Rightarrow> string" where
  "dup_name base ext i = base @ ''_dup'' @ str_nat i @ ext"

text \<open>
  The loops below end because the names they try are pairwise different and the file
  system holds finitely many entries: the entries with a number from \<open>i\<close> on are the
  measure.
\<close>

definition taken_from :: "filesystem \<Rightarrow> path \<Rightarrow> string \<Rightarrow> string \<Rightarrow> nat \<Rightarrow> nat set" where
  "taken_from fs d base ext i = {j. i \<le> j \<and> exists fs (d @ [dup_name base ext j])}"

lemma digit_val_digit_char: "d < 10 \<Longrightarrow> digit_val (digit_char d) = d"
proof -
  assume "d < 10"
  then have "d \<in> {0, 1, 2, 3, 4, 5, 6, 7, 8, 9}" by auto
  then show ?thesis
    by (auto simp: digit_val_def digit_char_def)
qed

lemma num_val_snoc: "num_val (xs @ [c]) = 10 * num_val xs + digit_val c"
  by (simp add: num_val_def)

lemma num_val_str_nat: "num_val (str_nat n) = n"
proof (induction n rule: str_nat.induct)
  case (1 n)
  show ?case
  proof (cases "n < 10")
    case True
    then show ?thesis
      by (subst str_nat.simps) (simp add: num_val_def digit_val_digit_char)
  next
    case False
    with 1 have "num_val (str_nat (n div 10)) = n div 10" by simp
    with False show ?thesis
      by (subst str_nat.simps) (simp add: num_val_snoc digit_val_digit_char)
  qed
qed

lemma str_nat_inj: "str_nat a = str_nat b \<Longrightarrow> a = b"
  by (metis num_val_str_nat)

lemma dup_name_inj: "dup_name base ext a = dup_name base ext b \<Longrightarrow> a = b"
  by (simp add: dup_name_def str_nat_inj)

lemma exists_dom: "exists fs p \<Longrightarrow> p \<in> fst ` set fs"
  by (auto simp: exists_def split: option.splits dest: map_of_SomeD intro: rev_image_eqI)

lemma finite_taken: "finite {j. exists fs (d @ [dup_name base ext j])}"
proof -
  have "inj (\<lambda>j. d @ [dup_name base ext j])"
    by (auto simp: inj_def dest: dup_name_inj)
  then have "finite ((\<lambda>j. d @ [dup_name base ext j]) -` (fst ` set fs))"
    by (intro finite_vimageI) auto
  moreover have "{j. exists fs (d @ [dup_name base ext j])}
      \<subseteq> (\<lambda>j. d @ [dup_name base ext j]) -` (fst ` set fs)"
    by (auto dest: exists_dom)
  ultimately show ?thesis by (rule rev_finite_subset)
qed

lemma taken_step:
  "2 * card (taken_from fs d base ext (Suc i)) +
     (if exists fs (d @ [dup_name base ext i]) then 1 else 0)
   < 2 * card (taken_from fs d base ext i) + 1"
proof -
  have fin: "finite (taken_from fs d base ext k)" for k
    unfolding taken_from_def by (rule finite_subset [OF _ finite_taken [of fs d base ext]]) auto
  show ?thesis
  proof (cases "exists fs (d @ [dup_name base ext i])")
    case True
    then have "taken_from fs d base ext i = insert i (taken_from fs d base ext (Suc i))"
      by (auto simp: taken_from_def le_Suc_eq)
    moreover have "i \<notin> taken_from fs d base ext (Suc i)"
      by (simp add: taken_from_def)
    ultimately have "card (taken_from fs d base ext i) = Suc (card (taken_from fs d base ext (Suc i)))"
      using fin [of "Suc i"] by simp
    with True show ?thesis by simp
  next
    case False
    then have "taken_from fs d base ext (Suc i) = taken_from fs d base ext i"
      by (auto simp: taken_from_def le_Suc_eq Suc_le_eq order_less_le)
    with False show ?thesis by simp
  qed
qed

text \<open>
  \<^verbatim>\<open>while new_path.exists(): new_path = path.with_name(f"{base}_dup{i}{ext}"); i += 1\<close>
\<close>

function rename_dup_loop ::
  "filesystem \<Rightarrow> path \<Rightarrow> string \<Rightarrow> string \<Rightarrow> path \<Rightarrow> nat \<Rightarrow> exn + path" where
  "rename_dup_loop fs path base ext new_path i =
     (if exists fs new_path
      then (case with_name path (dup_name base ext i) of
              Inl e \<Rightarrow> Inl e
            | Inr p \<Rightarrow> rename_dup_loop fs path base ext p (i + 1))
      else Inr new_path)"
  by pat_completeness auto
termination
proof (relation "measure (\<lambda>(fs, path, base, ext, p, i).
        2 * card (taken_from fs (parent path) base ext i) + (if exists fs p then 1 else 0))",
    goal_cases)
  case 1
  show ?case by simp
next
  case (2 fs path base ext new_path i p)
  then have "p = parent path @ [dup_name base ext i]"
    by (auto simp: with_name_def split: if_splits)
  with 2 taken_step [of fs "parent path" base ext i] show ?case by simp
qed

declare rename_dup_loop.simps [simp del]

text \<open>
  \<^verbatim>\<open>while target_path.exists(): target_path = target_dir / f"{base}_dup{i}{ext}"; i += 1\<close>
\<close>

function organize_dup_loop ::
  "filesystem \<Rightarrow> path \<Rightarrow> string \<Rightarrow> string \<Rightarrow> path \<Rightarrow> nat \<Rightarrow> path" where
  "organize_dup_loop fs target_dir base ext target_path i =
     (if exists fs target_path
      then organize_dup_loop fs target_dir base ext (target_dir @ [dup_name base ext i]) (i + 1)
      else target_path)"
  by pat_completeness auto
termination
  by (relation "measure (\<lambda>(fs, d, base, ext, p, i).
        2 * card (taken_from fs d base ext i) + (if exists fs p then 1 else 0))")
     (use taken_step in auto)

declare organize_dup_loop.simps [simp del]

text \<open>The arrow of the messages (U+2192), in UTF-8.\<close>

definition arrow :: string where
  "arrow = [CHR 0x20, CHR 0xE2, CHR 0x86, CHR 0x92, CHR 0x20]"

text \<open>
  A worker returns a message, or nothing, or raises; it is handed the file system and
  hands back the one it leaves.  The body of \<open>rename_file_worker\<close> is cut at its
  comments: the name (lines 43 to 51), the path free of duplicates (lines 40 to 60),
  the action (lines 62 to 69).
\<close>

definition new_name :: "datetime option \<Rightarrow> string \<Rightarrow> string \<Rightarrow> string \<Rightarrow> string" where
  "new_name dt camera_model file_hash ext =
     (let (confidence, date_str) =
            (case dt of
               Some d \<Rightarrow> (''A'', strftime_Ymd_HMS d)
             | None \<Rightarrow> (''C'', ''UnknownDate''))
      in date_str @ ''_'' @ confidence @ ''_'' @ camera_model @ ''_'' @ file_hash @ ext)"

definition rename_new_path :: "libs \<Rightarrow> filesystem \<Rightarrow> path \<Rightarrow> exn + path" where
  "rename_new_path L fs path =
     (let ext = lower (suffix (name path));
          file_hash = compute_file_hash L fs path HASH_LENGTH
      in
      case get_file_datetime L fs path of
        Inl e \<Rightarrow> Inl e
      | Inr (dt, camera_model) \<Rightarrow>
          (case with_name path (new_name dt camera_model file_hash ext) of
             Inl e \<Rightarrow> Inl e
           | Inr new_path \<Rightarrow>
               if exists fs new_path
               then rename_dup_loop fs path (stem (name new_path)) ext new_path 1
               else Inr new_path))"

definition rename_file_worker ::
  "libs \<Rightarrow> filesystem \<Rightarrow> path \<times> bool \<Rightarrow> (exn + string option) \<times> filesystem" where
  "rename_file_worker L fs args =
     (let (path, dry_run) = args;
          ext = lower (suffix (name path))
      in
      if ext \<notin> SUPPORTED_EXTENSIONS then (Inr None, fs)
      else
        case rename_new_path L fs path of
          Inl e \<Rightarrow> (Inl e, fs)
        | Inr new_path \<Rightarrow>
            if dry_run
            then (Inr (Some (''Would rename: '' @ name path @ arrow @ name new_path)), fs)
            else
              (case move L fs path new_path of
                 (None, fs') \<Rightarrow>
                   (Inr (Some (''Renamed: '' @ name path @ arrow @ name new_path)), fs')
               | (Some e, fs') \<Rightarrow>
                   (Inr (Some (''Error renaming '' @ str_path path @ '': '' @ str_exn L e)),
                    fs')))"

text \<open>\<open>target_path.relative_to(output_dir)\<close>.\<close>

definition relative_to :: "path \<Rightarrow> path \<Rightarrow> exn + path" where
  "relative_to p base = (if under base p then Inr (drop (length base) p) else Inl ValueError)"

definition upper_char :: "char \<Rightarrow> char" where
  "upper_char c =
     (case map_of (zip ''abcdefghijklmnopqrstuvwxyz'' ''ABCDEFGHIJKLMNOPQRSTUVWXYZ'') c of
        Some u \<Rightarrow> u
      | None \<Rightarrow> c)"

definition capitalize :: "string \<Rightarrow> string" where
  "capitalize s = (case s of [] \<Rightarrow> [] | c # cs \<Rightarrow> upper_char c # lower cs)"

text \<open>
  \<open>organize_file_worker\<close>, cut the same way: the date (lines 80 to 85), the directory
  (lines 88 to 92), the path free of duplicates (lines 93 to 101), the action (lines 103
  to 116).
\<close>

definition organize_dt :: "libs \<Rightarrow> filesystem \<Rightarrow> path \<Rightarrow> exn + datetime" where
  "organize_dt L fs path =
     (case get_file_datetime L fs path of
        Inl e \<Rightarrow> Inl e
      | Inr (dt, camera_model) \<Rightarrow>
          (case dt of
             Some d \<Rightarrow> Inr d
           | None \<Rightarrow>
               (case stat_mtime fs path of
                  Inl e \<Rightarrow> Inl e
                | Inr timestamp \<Rightarrow> fromtimestamp L timestamp)))"

definition target_dir :: "path \<Rightarrow> datetime \<Rightarrow> path" where
  "target_dir output_dir dt = output_dir @ [strftime_Y dt, strftime_m dt, strftime_d dt]"

definition organize_target_path :: "filesystem \<Rightarrow> path \<Rightarrow> path \<Rightarrow> path" where
  "organize_target_path fs tdir path =
     (let ext = lower (suffix (name path));
          target_path = tdir @ [name path]
      in
      if exists fs target_path
      then organize_dup_loop fs tdir (stem (name target_path)) ext target_path 1
      else target_path)"

definition organize_file_worker ::
  "libs \<Rightarrow> filesystem \<Rightarrow> path \<times> path \<times> bool \<times> bool \<Rightarrow> (exn + string option) \<times> filesystem"
  where
  "organize_file_worker L fs args =
     (let (path, output_dir, dry_run, copy_mode) = args;
          ext = lower (suffix (name path))
      in
      if ext \<notin> SUPPORTED_EXTENSIONS then (Inr None, fs)
      else
        case organize_dt L fs path of
          Inl e \<Rightarrow> (Inl e, fs)
        | Inr dt \<Rightarrow>
            let tdir = target_dir output_dir dt;
                target_path = organize_target_path fs tdir path;
                action = (if copy_mode then ''copy'' else ''move'');
                failed = (\<lambda>e. Some (''Error '' @ action @ ''ing '' @ str_path path @ '': '' @
                                    str_exn L e))
            in
            if dry_run
            then (case relative_to target_path output_dir of
                    Inl e \<Rightarrow> (Inl e, fs)
                  | Inr rel \<Rightarrow>
                      (Inr (Some (''Would '' @ action @ '': '' @ str_path path @ arrow @
                                  str_path rel)), fs))
            else
              (case mkdir_parents fs tdir of
                 (Some e, fs1) \<Rightarrow> (Inr (failed e), fs1)
               | (None, fs1) \<Rightarrow>
                   (case (if copy_mode
                          then (case copy2 fs1 path target_path of
                                  Inl e \<Rightarrow> (Some e, fs1)
                                | Inr fs2 \<Rightarrow> (None, fs2))
                          else move L fs1 path target_path) of
                      (Some e, fs2) \<Rightarrow> (Inr (failed e), fs2)
                    | (None, fs2) \<Rightarrow>
                        (case relative_to target_path output_dir of
                           Inl e \<Rightarrow> (Inr (failed e), fs2)
                         | Inr rel \<Rightarrow>
                             (Inr (Some (capitalize action @ ''d: '' @ name path @ arrow @
                                         str_path rel)), fs2)))))"

text \<open>
  The pool runs every submitted task; the tasks are taken one after the other, each on
  the file system the one before left.  The collecting loop writes each message and
  stops at the first task that raised: \<open>future.result()\<close> raises again in the caller.
\<close>

fun run_tasks ::
  "(filesystem \<Rightarrow> 'a \<Rightarrow> (exn + string option) \<times> filesystem) \<Rightarrow> filesystem \<Rightarrow> 'a list \<Rightarrow>
   (exn + string option) list \<times> filesystem" where
  "run_tasks w fs [] = ([], fs)"
| "run_tasks w fs (a # as) =
     (let (r, fs1) = w fs a; (rs, fs2) = run_tasks w fs1 as in (r # rs, fs2))"

fun collect_results :: "(exn + string option) list \<Rightarrow> exn option \<times> string list" where
  "collect_results [] = (None, [])"
| "collect_results (Inl e # rs) = (Some e, [])"
| "collect_results (Inr None # rs) = collect_results rs"
| "collect_results (Inr (Some result) # rs) =
     (let (err, written) = collect_results rs in
      (err, if result = [] then written else result # written))"

text \<open>
  The two commands: the exception that ended the command, if any, the messages written
  for the files, and the file system left behind.
\<close>

definition rename ::
  "libs \<Rightarrow> filesystem \<Rightarrow> path \<Rightarrow> bool \<Rightarrow> exn option \<times> string list \<times> filesystem" where
  "rename L fs directory dry_run =
     (let files = collect_files fs directory in
      if length files = 0 then (None, [], fs)
      else
        let (results, fs') = run_tasks (rename_file_worker L) fs (map (\<lambda>f. (f, dry_run)) files);
            (err, written) = collect_results results
        in (err, written, fs'))"

definition organize ::
  "libs \<Rightarrow> filesystem \<Rightarrow> path \<Rightarrow> path \<Rightarrow> bool \<Rightarrow> bool \<Rightarrow>
   exn option \<times> string list \<times> filesystem" where
  "organize L fs source destination dry_run copy =
     (let files = collect_files fs source in
      if length files = 0 then (None, [], fs)
      else
        let (results, fs') =
              run_tasks (organize_file_worker L) fs
                (map (\<lambda>f. (f, destination, dry_run, copy)) files);
            (err, written) = collect_results results
        in (err, written, fs'))"

section \<open>Properties of the fingerprint\<close>

lemma length_hex_digits: "length (hex_digits k n) = k"
  by (induction k n rule: hex_digits.induct) (subst hex_digits.simps, simp)

lemma length_hexdigest: "length (hexdigest w) = 32"
  by (simp add: hexdigest_def length_hex_digits)

lemma foldl_append_concat: "foldl (\<lambda>acc chunk. acc @ chunk) a xs = a @ concat xs"
  by (induction xs arbitrary: a) auto

lemma concat_read_chunks: "concat (read_chunks bs) = bs"
proof (induction bs rule: read_chunks.induct)
  case (1 bs)
  show ?case
  proof (cases "bs = []")
    case True
    then show ?thesis by (simp add: read_chunks.simps)
  next
    case False
    with 1 have "concat (read_chunks (drop 8192 bs)) = drop 8192 bs" by simp
    with False show ?thesis by (subst read_chunks.simps) simp
  qed
qed

lemma compute_file_hash_readable:
  "open_rb fs p = Inr bs \<Longrightarrow>
   compute_file_hash L fs p n = slice_to n (hexdigest (md5 L bs))"
  by (simp add: compute_file_hash_def foldl_append_concat concat_read_chunks)

lemma compute_file_hash_failure:
  "open_rb fs p = Inl e \<Longrightarrow> compute_file_hash L fs p n = slice_to n ''00000000''"
  by (simp add: compute_file_hash_def)

text \<open>
  C3 (as amended).  For a requested length \<open>n \<ge> 0\<close>: when the file can be read the result
  is the hexadecimal digest cut to its first \<open>n\<close> characters, which are exactly \<open>n\<close>
  characters as long as \<open>n \<le> 32\<close>, the length of the digest; when the file cannot be
  read and \<open>n \<le> 8\<close>, the result is the string of \<open>n\<close> zeros.
\<close>

theorem compute_file_hash_length:
  assumes "0 \<le> n"
  shows "(case open_rb fs p of
            Inr bs \<Rightarrow>
              compute_file_hash L fs p n = take (nat n) (hexdigest (md5 L bs)) \<and>
              (n \<le> 32 \<longrightarrow> length (compute_file_hash L fs p n) = nat n)
          | Inl e \<Rightarrow>
              (n \<le> 8 \<longrightarrow> compute_file_hash L fs p n = replicate (nat n) (CHR ''0'')))"
proof (cases "open_rb fs p")
  case (Inl e)
  have "take (nat n) ''00000000'' = replicate (nat n) (CHR ''0'')" if "n \<le> 8"
  proof -
    have "''00000000'' = replicate 8 (CHR ''0'')"
      by (simp add: eval_nat_numeral)
    then show ?thesis
      using that assms by (simp add: min_def)
  qed
  with Inl assms show ?thesis
    by (simp add: compute_file_hash_failure slice_to_def)
next
  case (Inr bs)
  with assms show ?thesis
    by (simp add: compute_file_hash_readable slice_to_def length_hexdigest)
qed

text \<open>
  Witness: the default length 8 on a missing file (eight zeros) and on the empty
  readable file whose digest is that of MD5 on the empty input.
\<close>

theorem compute_file_hash_length_witness:
  "(0::int) \<le> 8 \<and>
   compute_file_hash example_libs [] [''pics'', ''a.jpg''] 8 = ''00000000'' \<and>
   compute_file_hash example_libs
     [([''pics'', ''a.jpg''], File [] 0 True)] [''pics'', ''a.jpg''] 8 = ''d41d8cd9''"
proof -
  have h: "(0::int) \<le> 8" by simp
  have e: "open_rb [] [''pics'', ''a.jpg''] = Inl (FileNotFoundError [''pics/a.jpg''])"
    by (simp add: open_rb_def)
  have r: "open_rb [([''pics'', ''a.jpg''], File [] 0 True)] [''pics'', ''a.jpg''] = Inr []"
    by (simp add: open_rb_def)
  have d: "take 8 (hexdigest (md5 example_libs [])) = ''d41d8cd9''"
    by (simp add: example_libs_def hexdigest_def hex_digits.simps hexchar_def)
  have z: "replicate 8 (CHR ''0'') = ''00000000''"
    by (simp add: eval_nat_numeral)
  from compute_file_hash_length [OF h, where fs = "[]" and p = "[''pics'', ''a.jpg'']"
      and L = example_libs]
  have "compute_file_hash example_libs [] [''pics'', ''a.jpg''] 8 = ''00000000''"
    by (simp add: e z)
  moreover
  from compute_file_hash_length [OF h, where fs = "[([''pics'', ''a.jpg''], File [] 0 True)]"
      and p = "[''pics'', ''a.jpg'']" and L = example_libs]
  have "compute_file_hash example_libs
     [([''pics'', ''a.jpg''], File [] 0 True)] [''pics'', ''a.jpg''] 8 = ''d41d8cd9''"
    by (simp add: r d)
  ultimately show ?thesis by simp
qed

text \<open>
  The claim as stated fails for a length above 8 on an unreadable file (the sentinel has
  only eight zeros) and for a length above 32 on a readable one (the digest has only 32
  digits).
\<close>

theorem compute_file_hash_length_counterexample:
  "length (compute_file_hash example_libs [] [''pics'', ''a.jpg''] 9) = 8 \<and>
   length (compute_file_hash example_libs
     [([''pics'', ''a.jpg''], File [] 0 True)] [''pics'', ''a.jpg''] 33) = 32"
  by (simp add: compute_file_hash_def open_rb_def slice_to_def length_hexdigest)

section \<open>Running rename again\<close>

text \<open>
  C1.  A file that already carries its own name is found to exist, is taken for a
  duplicate of itself and is renamed with the suffix \<open>_dup1\<close>.  Here an empty file
  \<open>IMG_0001.jpg\<close> is renamed by a first run, and renamed again by a second run although
  nothing has changed.
\<close>

theorem rename_again_adds_dup:
  "rename example_libs
     [([''pics''], Dir True 0), ([''pics'', ''IMG_0001.jpg''], File [] 0 True)] [''pics''] False =
   (None,
    [''Renamed: IMG_0001.jpg'' @ arrow @ ''UnknownDate_C_Unknown_d41d8cd9.jpg''],
    [([''pics'', ''UnknownDate_C_Unknown_d41d8cd9.jpg''], File [] 0 True),
     ([''pics''], Dir True 0)]) \<and>
   rename example_libs
     [([''pics'', ''UnknownDate_C_Unknown_d41d8cd9.jpg''], File [] 0 True),
      ([''pics''], Dir True 0)]
     [''pics''] False =
   (None,
    [''Renamed: UnknownDate_C_Unknown_d41d8cd9.jpg'' @ arrow @
     ''UnknownDate_C_Unknown_d41d8cd9_dup1.jpg''],
    [([''pics'', ''UnknownDate_C_Unknown_d41d8cd9_dup1.jpg''], File [] 0 True),
     ([''pics''], Dir True 0)])"
  by code_simp

section \<open>Failures while a file is organized\<close>

text \<open>
  C2.  The source directory holds one entry, \<open>a.jpg\<close>, a dangling link.  It is
  discovered; no date can be read from it; \<open>path.stat()\<close> then raises outside every
  \<open>try\<close>, the worker raises, and the command ends with that exception without any
  message for the file.
\<close>

theorem organize_stat_failure_aborts:
  "collect_files [([''src''], Dir True 0), ([''src'', ''a.jpg''], Dangling ''/lost/a.jpg'')] [''src''] =
     [[''src'', ''a.jpg'']] \<and>
   organize_file_worker example_libs [([''src''], Dir True 0), ([''src'', ''a.jpg''], Dangling ''/lost/a.jpg'')]
     ([''src'', ''a.jpg''], [''out''], False, False) =
     (Inl (FileNotFoundError [''src/a.jpg'']),
      [([''src''], Dir True 0), ([''src'', ''a.jpg''], Dangling ''/lost/a.jpg'')]) \<and>
   organize example_libs [([''src''], Dir True 0), ([''src'', ''a.jpg''], Dangling ''/lost/a.jpg'')]
     [''src''] [''out''] False False =
     (Some (FileNotFoundError [''src/a.jpg'']), [],
      [([''src''], Dir True 0), ([''src'', ''a.jpg''], Dangling ''/lost/a.jpg'')])"
  by code_simp

section \<open>The metadata extractor\<close>

text \<open>
  C9 (as amended).  \<open>get_file_datetime\<close> never raises.  Date and device are absent and
  \<open>Unknown\<close> for an extension that is not supported, for a file that cannot be opened,
  for an image that cannot be decoded and for a date tag that cannot be parsed.  For a
  video the device is \<open>Unknown\<close>, and the date is absent when the container cannot be
  parsed, when it has no creation date and when that date is no valid date; it is the
  creation date otherwise.  For an image that can be decoded the date is the parsed
  DateTimeOriginal tag (else the DateTime tag, else absent) and the device is the Model
  tag with its spaces replaced (else \<open>Unknown\<close>): a missing date tag leaves the device of
  the Model tag in place.
\<close>

theorem get_file_datetime_never_raises:
  "\<exists>dt cam. get_file_datetime L fs p = Inr (dt, cam) \<and>
     (lower (suffix (name p)) \<notin> SUPPORTED_EXTENSIONS \<longrightarrow> dt = None \<and> cam = ''Unknown'') \<and>
     ((\<exists>e. open_rb fs p = Inl e) \<longrightarrow> dt = None \<and> cam = ''Unknown'') \<and>
     (lower (suffix (name p)) \<in> {''.mp4'', ''.mov'', ''.avi''} \<longrightarrow>
        cam = ''Unknown'' \<and>
        (\<forall>bs. open_rb fs p = Inr bs \<longrightarrow>
           (case creation_date L bs of
              Inl e \<Rightarrow> dt = None
            | Inr None \<Rightarrow> dt = None
            | Inr (Some (y, mo, d, h, mi, s)) \<Rightarrow>
                (case datetime_new y mo d h mi s of
                   Inl e \<Rightarrow> dt = None
                 | Inr v \<Rightarrow> dt = Some v)))) \<and>
     (lower (suffix (name p)) \<in> {''.jpg'', ''.jpeg'', ''.png'', ''.heic''} \<longrightarrow>
        (\<forall>bs. open_rb fs p = Inr bs \<longrightarrow>
           (case getexif L bs of
              Inl e \<Rightarrow> dt = None \<and> cam = ''Unknown''
            | Inr exif \<Rightarrow>
                (case (case map_of exif 36867 of Some v \<Rightarrow> Some v | None \<Rightarrow> map_of exif 306) of
                   None \<Rightarrow>
                     dt = None \<and>
                     cam = (case map_of exif 272 of
                              Some m \<Rightarrow> replace_spaces m
                            | None \<Rightarrow> ''Unknown'')
                 | Some v \<Rightarrow>
                     (case strptime v of
                        Inl e \<Rightarrow> dt = None \<and> cam = ''Unknown''
                      | Inr d \<Rightarrow>
                          dt = Some d \<and>
                          cam = (case map_of exif 272 of
                                   Some m \<Rightarrow> replace_spaces m
                                 | None \<Rightarrow> ''Unknown''))))))"
proof -
  have video: "\<exists>dt. get_video_datetime L fs p = Inr dt \<and>
     ((\<exists>e. open_rb fs p = Inl e) \<longrightarrow> dt = None) \<and>
     (\<forall>bs. open_rb fs p = Inr bs \<longrightarrow>
        (case creation_date L bs of
           Inl e \<Rightarrow> dt = None
         | Inr None \<Rightarrow> dt = None
         | Inr (Some (y, mo, d, h, mi, s)) \<Rightarrow>
             (case datetime_new y mo d h mi s of
                Inl e \<Rightarrow> dt = None
              | Inr v \<Rightarrow> dt = Some v)))"
    by (auto simp: get_video_datetime_def try_except_def split: sum.splits option.splits)
  have image: "\<exists>dt cam. get_exif_datetime L fs p = Inr (dt, cam) \<and>
     ((\<exists>e. open_rb fs p = Inl e) \<longrightarrow> dt = None \<and> cam = ''Unknown'') \<and>
     (\<forall>bs. open_rb fs p = Inr bs \<longrightarrow>
        (case getexif L bs of
           Inl e \<Rightarrow> dt = None \<and> cam = ''Unknown''
         | Inr exif \<Rightarrow>
             (case (case map_of exif 36867 of Some v \<Rightarrow> Some v | None \<Rightarrow> map_of exif 306) of
                None \<Rightarrow>
                  dt = None \<and>
                  cam = (case map_of exif 272 of
                           Some m \<Rightarrow> replace_spaces m
                         | None \<Rightarrow> ''Unknown'')
              | Some v \<Rightarrow>
                  (case strptime v of
                     Inl e \<Rightarrow> dt = None \<and> cam = ''Unknown''
                   | Inr d \<Rightarrow>
                       dt = Some d \<and>
                       cam = (case map_of exif 272 of
                                Some m \<Rightarrow> replace_spaces m
                              | None \<Rightarrow> ''Unknown'')))))"
    by (auto simp: get_exif_datetime_def try_except_def exif_fields_def
        split: sum.splits option.splits)
  consider (img) "lower (suffix (name p)) \<in> {''.jpg'', ''.jpeg'', ''.png'', ''.heic''}"
    | (vid) "lower (suffix (name p)) \<in> {''.mp4'', ''.mov'', ''.avi''}"
    | (other) "lower (suffix (name p)) \<notin> SUPPORTED_EXTENSIONS"
    by (auto simp: SUPPORTED_EXTENSIONS_def)
  then show ?thesis
  proof cases
    case img
    then have g: "get_file_datetime L fs p = get_exif_datetime L fs p"
      by (simp add: get_file_datetime_def)
    from img have "lower (suffix (name p)) \<in> SUPPORTED_EXTENSIONS"
      "lower (suffix (name p)) \<notin> {''.mp4'', ''.mov'', ''.avi''}"
      by (auto simp: SUPPORTED_EXTENSIONS_def)
    with image g show ?thesis by auto
  next
    case vid
    then have ni: "lower (suffix (name p)) \<notin> {''.jpg'', ''.jpeg'', ''.png'', ''.heic''}"
      and sup: "lower (suffix (name p)) \<in> SUPPORTED_EXTENSIONS"
      by (auto simp: SUPPORTED_EXTENSIONS_def)
    from video obtain dt where dt: "get_video_datetime L fs p = Inr dt"
      "(\<exists>e. open_rb fs p = Inl e) \<longrightarrow> dt = None"
      "\<forall>bs. open_rb fs p = Inr bs \<longrightarrow>
        (case creation_date L bs of
           Inl e \<Rightarrow> dt = None
         | Inr None \<Rightarrow> dt = None
         | Inr (Some (y, mo, d, h, mi, s)) \<Rightarrow>
             (case datetime_new y mo d h mi s of
                Inl e \<Rightarrow> dt = None
              | Inr v \<Rightarrow> dt = Some v))"
      by blast
    from vid ni dt(1) have "get_file_datetime L fs p = Inr (dt, ''Unknown'')"
      by (simp add: get_file_datetime_def)
    with dt(2,3) ni sup vid show ?thesis by simp
  next
    case other
    then have "get_file_datetime L fs p = Inr (None, ''Unknown'')"
      by (auto simp: get_file_datetime_def SUPPORTED_EXTENSIONS_def)
    with other show ?thesis
      by (auto simp: SUPPORTED_EXTENSIONS_def)
  qed
qed

text \<open>
  Witness: an image whose capture time \<open>2024-01-23\<close> is not in the EXIF format, and a
  video without a creation date.
\<close>

theorem get_file_datetime_never_raises_witness:
  "get_file_datetime example_libs [([''a.jpg''], File [3] 0 True)] [''a.jpg''] =
     Inr (None, ''Unknown'') \<and>
   get_file_datetime example_libs [([''a.mp4''], File [9] 0 True)] [''a.mp4''] =
     Inr (None, ''Unknown'')"
proof -
  have ext: "lower (suffix (name [''a.jpg''])) = ''.jpg''"
    by code_simp
  have rd: "open_rb [([''a.jpg''], File [3] 0 True)] [''a.jpg''] = Inr [3]"
    by code_simp
  have ex: "getexif example_libs [3] = Inr [(36867, ''2024-01-23''), (272, ''Pixel 7'')]"
    by (simp add: example_libs_def)
  have sp: "strptime ''2024-01-23'' = Inl ValueError"
    by code_simp
  from get_file_datetime_never_raises
    [of example_libs "[([''a.jpg''], File [3] 0 True)]" "[''a.jpg'']"]
  have 1: "get_file_datetime example_libs [([''a.jpg''], File [3] 0 True)] [''a.jpg''] =
     Inr (None, ''Unknown'')"
    by (auto simp: ext rd ex sp)
  have ext2: "lower (suffix (name [''a.mp4''])) = ''.mp4''"
    by code_simp
  have rd2: "open_rb [([''a.mp4''], File [9] 0 True)] [''a.mp4''] = Inr [9]"
    by code_simp
  have cd: "creation_date example_libs [9] = Inr None"
    by (simp add: example_libs_def)
  from get_file_datetime_never_raises
    [of example_libs "[([''a.mp4''], File [9] 0 True)]" "[''a.mp4'']"]
  have 2: "get_file_datetime example_libs [([''a.mp4''], File [9] 0 True)] [''a.mp4''] =
     Inr (None, ''Unknown'')"
    by (auto simp: ext2 rd2 cd)
  from 1 2 show ?thesis by simp
qed

text \<open>
  The claim as stated fails for an image that has a Model tag and no date tag: the
  device is that of the tag, not \<open>Unknown\<close>.
\<close>

theorem get_file_datetime_missing_tag_counterexample:
  "get_file_datetime example_libs [([''a.jpg''], File [2] 0 True)] [''a.jpg''] =
     Inr (None, ''Pixel_7'')"
  by code_simp

section \<open>The shape of dates\<close>



























section \<open>The canonical name\<close>







section \<open>The confidence letter\<close>







section \<open>Resolving a collision\<close>

lemma organize_dup_loop_first_free:
  "exists fs p \<Longrightarrow>
   \<exists>k \<ge> i. organize_dup_loop fs d base ext p i = d @ [dup_name base ext k] \<and>
     \<not> exists fs (d @ [dup_name base ext k]) \<and>
     (\<forall>j. i \<le> j \<and> j < k \<longrightarrow> exists fs (d @ [dup_name base ext j]))"
proof (induction fs d base ext p i rule: organize_dup_loop.induct)
  case (1 fs d base ext p i)
  from 1(2) have unf: "organize_dup_loop fs d base ext p i =
      organize_dup_loop fs d base ext (d @ [dup_name base ext i]) (i + 1)"
    by (subst organize_dup_loop.simps) simp
  show ?case
  proof (cases "exists fs (d @ [dup_name base ext i])")
    case False
    then have "organize_dup_loop fs d base ext (d @ [dup_name base ext i]) (i + 1) =
        d @ [dup_name base ext i]"
      by (subst organize_dup_loop.simps) simp
    with unf False show ?thesis
      by (intro exI [of _ i]) auto
  next
    case True
    from 1(1) [OF 1(2) True] obtain k where k: "i + 1 \<le> k"
      "organize_dup_loop fs d base ext (d @ [dup_name base ext i]) (i + 1) =
         d @ [dup_name base ext k]"
      "\<not> exists fs (d @ [dup_name base ext k])"
      "\<forall>j. i + 1 \<le> j \<and> j < k \<longrightarrow> exists fs (d @ [dup_name base ext j])"
      by blast
    have "exists fs (d @ [dup_name base ext j])" if "i \<le> j" "j < k" for j
      using that True k(4) by (cases "j = i") auto
    with k unf show ?thesis
      by (intro exI [of _ k]) auto
  qed
qed






lemma name_snoc: "name (d @ [nm]) = nm"
  by (simp add: name_def)

lemma with_name_Inr:
  "with_name p nm = Inr np \<Longrightarrow>
   np = parent p @ [nm] \<and> name p \<noteq> [] \<and> CHR ''/'' \<notin> set nm"
  by (auto simp: with_name_def split: if_splits)


lemma stem_suffix_append_ext:
  assumes "ext \<in> SUPPORTED_EXTENSIONS" "x \<noteq> []"
  shows "stem (x @ ext) = x \<and> suffix (x @ ext) = ext"
proof -
  have "CHR ''.'' \<in> set (x @ ext)"
    using assms(1) by (auto simp: SUPPORTED_EXTENSIONS_def)
  moreover have "length (takeWhile (\<lambda>c. c \<noteq> CHR ''.'') (rev (x @ ext))) = length ext - 1"
    using assms(1) by (auto simp: SUPPORTED_EXTENSIONS_def)
  moreover have "2 \<le> length ext"
    using assms(1) by (auto simp: SUPPORTED_EXTENSIONS_def)
  ultimately have "rfind_dot (x @ ext) = int (length x)"
    by (simp add: rfind_dot_def)
  with assms(2) \<open>2 \<le> length ext\<close> show ?thesis
    by (simp add: stem_def suffix_def)
qed

lemma new_name_append_ext: "\<exists>x. x \<noteq> [] \<and> new_name dt cam h ext = x @ ext"
  by (cases dt) (auto simp: new_name_def)



section \<open>Dry runs\<close>






section \<open>The directory of a date\<close>







section \<open>What the commands leave alone\<close>

definition is_dir_node :: "node \<Rightarrow> bool" where
  "is_dir_node n = (case n of Dir w t \<Rightarrow> True | _ \<Rightarrow> False)"

definition supported :: "path \<Rightarrow> bool" where
  "supported p = (lower (suffix (name p)) \<in> SUPPORTED_EXTENSIONS)"

lemma map_of_filter_neq:
  "P q \<Longrightarrow> map_of (filter (\<lambda>(p, m). P p) fs) q = map_of fs q"
  by (induction fs) auto

lemma map_of_filter_out:
  "\<not> P q \<Longrightarrow> map_of (filter (\<lambda>(p, m). P p) fs) q = None"
  by (induction fs) auto

lemma name_real_dst: "name (real_dst fs src dst) = name src \<or> real_dst fs src dst = dst"
  by (simp add: real_dst_def name_snoc)

lemma os_rename_effect:
  assumes "os_rename fs src dst = Inr fs'"
  shows "\<exists>n. map_of fs src = Some n \<and> map_of fs' dst = Some n \<and>
           (\<forall>q. q \<noteq> dst \<longrightarrow> map_of fs' q = (if q = src then None else map_of fs q))"
proof -
  from assms obtain n where n: "map_of fs src = Some n"
    and fs': "fs' = (dst, n) # filter (\<lambda>(p, m). p \<noteq> src \<and> p \<noteq> dst) fs"
    by (auto simp: os_rename_def split: option.splits if_splits)
  have "map_of fs' q = (if q = src then None else map_of fs q)" if "q \<noteq> dst" for q
  proof (cases "q = src")
    case True
    then show ?thesis
      using that map_of_filter_out [of "\<lambda>p. p \<noteq> src \<and> p \<noteq> dst" q fs] by (simp add: fs')
  next
    case False
    then show ?thesis
      using that map_of_filter_neq [of "\<lambda>p. p \<noteq> src \<and> p \<noteq> dst" q fs] by (simp add: fs')
  qed
  with n fs' show ?thesis by simp
qed

lemma unlink_effect:
  assumes "unlink fs p = Inr fs'"
  shows "\<forall>q. map_of fs' q = (if q = p then None else map_of fs q)"
proof -
  from assms have fs': "fs' = filter (\<lambda>(q, m). q \<noteq> p) fs"
    by (auto simp: unlink_def split: option.splits node.splits)
  show ?thesis
    using map_of_filter_out [of "\<lambda>q. q \<noteq> p" _ fs] map_of_filter_neq [of "\<lambda>q. q \<noteq> p" _ fs]
    by (auto simp: fs')
qed

lemma copy2_effect:
  assumes "copy2 fs src dst = Inr fs'"
  shows "(\<exists>c t r. map_of fs' (real_dst fs src dst) = Some (File c t r)) \<and>
         (\<forall>q. q \<noteq> real_dst fs src dst \<longrightarrow> map_of fs' q = map_of fs q)"
proof -
  let ?rd = "real_dst fs src dst"
  from assms obtain bs t where fs': "fs' = (?rd, File bs t True) # filter (\<lambda>(p, m). p \<noteq> ?rd) fs"
    by (auto simp: copy2_def Let_def split: if_splits sum.splits option.splits)
  show ?thesis
    using map_of_filter_neq [of "\<lambda>p. p \<noteq> ?rd" _ fs] by (auto simp: fs')
qed

lemma symlink_effect:
  assumes "symlink fs l p = Inr fs'"
  shows "map_of fs' p = Some (Dangling l) \<and> (\<forall>q. q \<noteq> p \<longrightarrow> map_of fs' q = map_of fs q)"
  using assms by (auto simp: symlink_def split: if_splits)

text \<open>
  What a step may do to a path other than its source: nothing; make a directory where
  there was nothing; or put a file or a link under a name with a supported extension.
\<close>

definition step_ok :: "filesystem \<Rightarrow> filesystem \<Rightarrow> path \<Rightarrow> bool" where
  "step_ok fs fs' q =
     (map_of fs' q = map_of fs q \<or>
      (map_of fs q = None \<and> (\<exists>n. map_of fs' q = Some n \<and> is_dir_node n)) \<or>
      (supported q \<and> (\<exists>n. map_of fs' q = Some n \<and> \<not> is_dir_node n)))"

lemma step_ok_refl: "step_ok fs fs q"
  by (simp add: step_ok_def)

lemma move_effect:
  assumes m: "move L fs src dst = (r, fs')"
    and nd: "\<forall>w t. map_of fs src \<noteq> Some (Dir w t)"
    and s: "supported src" "supported dst"
    and q: "q \<noteq> src"
  shows "map_of fs' q = map_of fs q \<or>
         (supported q \<and> (\<exists>n. map_of fs' q = Some n \<and> \<not> is_dir_node n))"
proof -
  let ?rd = "real_dst fs src dst"
  have srd: "supported ?rd"
    using s name_real_dst [of fs src dst] by (auto simp: supported_def)
  have nrd: "\<not> is_dir fs ?rd" if "\<not> (is_dir fs dst \<and> exists fs ?rd)"
    using that by (auto simp: real_dst_def is_dir_def exists_def split: option.splits node.splits)
  show ?thesis
  proof (cases "is_dir fs dst \<and> exists fs ?rd")
    case True
    with m nd have "fs' = fs"
      by (auto simp: move_def Let_def split: option.splits node.splits)
    then show ?thesis by simp
  next
    case False
    then have rr: "real_dst fs src ?rd = ?rd"
      using nrd by (simp add: real_dst_def)
    show ?thesis
    proof (cases "os_rename fs src ?rd")
      case (Inr fs1)
      with m nd False have "fs' = fs1"
        by (auto simp: move_def Let_def split: option.splits node.splits)
      with os_rename_effect [OF Inr] obtain n where n: "map_of fs src = Some n"
        "map_of fs' ?rd = Some n"
        "\<forall>q. q \<noteq> ?rd \<longrightarrow> map_of fs' q = (if q = src then None else map_of fs q)"
        by blast
      from n(1) nd have "\<not> is_dir_node n"
        by (cases n) (auto simp: is_dir_node_def)
      with n q srd show ?thesis
        by (cases "q = ?rd") auto
    next
      case (Inl e)
      let ?second = "case map_of fs src of
                         Some (Dangling l) \<Rightarrow> symlink fs l ?rd
                       | _ \<Rightarrow> copy2 fs src ?rd"
      show ?thesis
      proof (cases ?second)
        case e1: (Inl e1)
        with m nd False Inl have "fs' = fs"
          by (auto simp: move_def Let_def split: option.splits node.splits)
        then show ?thesis by simp
      next
        case f1: (Inr fs1)
        then have one: "(\<exists>n. map_of fs1 ?rd = Some n \<and> \<not> is_dir_node n) \<and>
            (\<forall>q. q \<noteq> ?rd \<longrightarrow> map_of fs1 q = map_of fs q)"
          using copy2_effect [of fs src ?rd fs1] symlink_effect [of fs _ ?rd fs1] rr
          by (auto simp: is_dir_node_def split: option.splits node.splits)
        show ?thesis
        proof (cases "unlink fs1 src")
          case e2: (Inl e2)
          with m nd False Inl f1 have "fs' = fs1"
            by (auto simp: move_def Let_def split: option.splits node.splits)
          with one srd show ?thesis
            by (cases "q = ?rd") auto
        next
          case f2: (Inr fs2)
          with m nd False Inl f1 have "fs' = fs2"
            by (auto simp: move_def Let_def split: option.splits node.splits)
          with unlink_effect [OF f2] have "map_of fs' q = map_of fs1 q"
            using q by simp
          with one srd show ?thesis
            by (cases "q = ?rd") auto
        qed
      qed
    qed
  qed
qed

lemma mkdir_from_effect:
  "mkdir_from fs pre cs = (r, fs') \<Longrightarrow>
   map_of fs' q = map_of fs q \<or>
   (map_of fs q = None \<and> (\<exists>n. map_of fs' q = Some n \<and> is_dir_node n))"
proof (induction cs arbitrary: fs pre)
  case Nil
  then show ?case by simp
next
  case (Cons c cs)
  show ?case
  proof (cases "map_of fs (pre @ [c])")
    case None
    show ?thesis
    proof (cases "dir_writable fs pre")
      case False
      with None Cons.prems show ?thesis by simp
    next
      case True
      let ?fs1 = "(pre @ [c], Dir True 0) # fs"
      from None True Cons.prems have "mkdir_from ?fs1 (pre @ [c]) cs = (r, fs')" by simp
      from Cons.IH [OF this]
      have ih: "map_of fs' q = map_of ?fs1 q \<or>
          (map_of ?fs1 q = None \<and> (\<exists>n. map_of fs' q = Some n \<and> is_dir_node n))" .
      show ?thesis
      proof (cases "q = pre @ [c]")
        case True
        with ih None show ?thesis by (auto simp: is_dir_node_def)
      next
        case False
        with ih show ?thesis by simp
      qed
    qed
  next
    case (Some n)
    with Cons.prems Cons.IH [of fs "pre @ [c]"] show ?thesis
      by (cases n) (auto split: if_splits)
  qed
qed

lemma lower_supported: "ext \<in> SUPPORTED_EXTENSIONS \<Longrightarrow> lower ext = ext"
  by (auto simp: SUPPORTED_EXTENSIONS_def lower_def lower_char_def)

lemma supported_append_ext:
  "ext \<in> SUPPORTED_EXTENSIONS \<Longrightarrow> x \<noteq> [] \<Longrightarrow> supported (d @ [x @ ext])"
  using stem_suffix_append_ext [of ext x] by (simp add: supported_def name_snoc lower_supported)

lemma supported_dup_name:
  "ext \<in> SUPPORTED_EXTENSIONS \<Longrightarrow> supported (d @ [dup_name base ext k])"
  using supported_append_ext [of ext "base @ ''_dup'' @ str_nat k" d]
  by (simp add: dup_name_def)

lemma rename_dup_loop_result:
  "rename_dup_loop fs path base ext p i = Inr p' \<Longrightarrow>
   p' = p \<or> (\<exists>k. p' = parent path @ [dup_name base ext k])"
proof (induction fs path base ext p i rule: rename_dup_loop.induct)
  case (1 fs path base ext p i)
  show ?case
  proof (cases "exists fs p")
    case False
    with 1(2) show ?thesis
      by (subst (asm) rename_dup_loop.simps) simp
  next
    case True
    with 1(2) obtain p1 where w: "with_name path (dup_name base ext i) = Inr p1"
      and l: "rename_dup_loop fs path base ext p1 (i + 1) = Inr p'"
      by (subst (asm) rename_dup_loop.simps) (auto split: sum.splits)
    from w have "p1 = parent path @ [dup_name base ext i]"
      using with_name_Inr by blast
    with 1(1) [OF True w l] show ?thesis by auto
  qed
qed

lemma rename_new_path_supported:
  assumes "supported path" "rename_new_path L fs path = Inr np"
  shows "supported np"
proof -
  let ?e = "lower (suffix (name path))"
  from assms(1) have e: "?e \<in> SUPPORTED_EXTENSIONS" by (simp add: supported_def)
  from assms(2) obtain dt cam np0 where
    w: "with_name path (new_name dt cam (compute_file_hash L fs path HASH_LENGTH) ?e) = Inr np0"
    and r: "(if exists fs np0 then rename_dup_loop fs path (stem (name np0)) ?e np0 1
             else Inr np0) = Inr np"
    by (auto simp: rename_new_path_def Let_def split: sum.splits prod.splits)
  obtain x where x: "x \<noteq> []"
    "new_name dt cam (compute_file_hash L fs path HASH_LENGTH) ?e = x @ ?e"
    using new_name_append_ext by blast
  from w x have "np0 = parent path @ [x @ ?e]"
    using with_name_Inr by fastforce
  with e x(1) have s0: "supported np0"
    by (simp add: supported_append_ext)
  from r have "np = np0 \<or> (\<exists>k. np = parent path @ [dup_name (stem (name np0)) ?e k])"
    by (auto split: if_splits dest: rename_dup_loop_result)
  with s0 e show ?thesis
    by (auto simp: supported_dup_name)
qed

lemma organize_target_path_supported:
  assumes "supported path"
  shows "supported (organize_target_path fs tdir path)"
proof (cases "exists fs (tdir @ [name path])")
  case False
  with assms show ?thesis
    by (simp add: organize_target_path_def supported_def name_snoc)
next
  case True
  from organize_dup_loop_first_free [OF True, of 1 tdir "stem (name path)" "lower (suffix (name path))"]
  obtain k where "organize_target_path fs tdir path =
      tdir @ [dup_name (stem (name path)) (lower (suffix (name path))) k]"
    using True by (auto simp: organize_target_path_def name_snoc)
  moreover from assms have "lower (suffix (name path)) \<in> SUPPORTED_EXTENSIONS"
    by (simp add: supported_def)
  then have "supported (tdir @ [dup_name (stem (name path)) (lower (suffix (name path))) k])"
    by (rule supported_dup_name)
  ultimately show ?thesis by simp
qed

lemma rename_worker_effect:
  assumes w: "rename_file_worker L fs (path, dry_run) = (r, fs')"
    and nd: "\<forall>w t. map_of fs path \<noteq> Some (Dir w t)"
    and q: "q \<noteq> path"
  shows "step_ok fs fs' q"
proof (cases "supported path")
  case False
  with w have "fs' = fs"
    by (simp add: rename_file_worker_def supported_def)
  then show ?thesis by (simp add: step_ok_refl)
next
  case True
  show ?thesis
  proof (cases "rename_new_path L fs path")
    case (Inl e)
    with True w have "fs' = fs"
      by (simp add: rename_file_worker_def supported_def)
    then show ?thesis by (simp add: step_ok_refl)
  next
    case (Inr np)
    from True Inr have snp: "supported np" by (rule rename_new_path_supported)
    show ?thesis
    proof (cases dry_run)
      case True
      with \<open>supported path\<close> Inr w have "fs' = fs"
        by (simp add: rename_file_worker_def supported_def)
      then show ?thesis by (simp add: step_ok_refl)
    next
      case False
      with \<open>supported path\<close> Inr w obtain x where "move L fs path np = (x, fs')"
        by (auto simp: rename_file_worker_def supported_def split: prod.splits option.splits)
      from move_effect [OF this nd \<open>supported path\<close> snp q] show ?thesis
        by (auto simp: step_ok_def)
    qed
  qed
qed

lemma organize_worker_effect:
  assumes w: "organize_file_worker L fs (path, output_dir, dry_run, copy_mode) = (r, fs')"
    and b: "map_of fs path = Some n" "\<not> is_dir_node n"
    and q: "q \<noteq> path"
  shows "step_ok fs fs' q"
proof (cases "supported path")
  case False
  with w have "fs' = fs"
    by (simp add: organize_file_worker_def supported_def)
  then show ?thesis by (simp add: step_ok_refl)
next
  case True
  show ?thesis
  proof (cases "organize_dt L fs path")
    case (Inl e)
    with True w have "fs' = fs"
      by (simp add: organize_file_worker_def supported_def)
    then show ?thesis by (simp add: step_ok_refl)
  next
    case (Inr dt)
    let ?tdir = "target_dir output_dir dt"
    let ?tp = "organize_target_path fs ?tdir path"
    from True have stp: "supported ?tp" by (rule organize_target_path_supported)
    show ?thesis
    proof (cases dry_run)
      case True
      with \<open>supported path\<close> Inr w have "fs' = fs"
        by (auto simp: organize_file_worker_def supported_def Let_def split: sum.splits)
      then show ?thesis by (simp add: step_ok_refl)
    next
      case False
      obtain e1 fs1 where mk: "mkdir_parents fs ?tdir = (e1, fs1)"
        by (cases "mkdir_parents fs ?tdir") auto
      then have m1: "map_of fs1 q = map_of fs q \<or>
          (map_of fs q = None \<and> (\<exists>n. map_of fs1 q = Some n \<and> is_dir_node n))" for q
        using mkdir_from_effect [of fs "[]" ?tdir e1 fs1 q] by (simp add: mkdir_parents_def)
      from m1 [of path] b have b1: "map_of fs1 path = Some n" by simp
      show ?thesis
      proof (cases e1)
        case (Some e)
        with False \<open>supported path\<close> Inr w mk have "fs' = fs1"
          by (simp add: organize_file_worker_def supported_def Let_def)
        with m1 [of q] show ?thesis by (auto simp: step_ok_def)
      next
        case None
        let ?act = "if copy_mode
                    then (case copy2 fs1 path ?tp of
                            Inl e \<Rightarrow> (Some e, fs1)
                          | Inr fs2 \<Rightarrow> (None, fs2))
                    else move L fs1 path ?tp"
        obtain e2 fs2 where act: "?act = (e2, fs2)"
          by (cases ?act) auto
        with None False \<open>supported path\<close> Inr w mk have "fs' = fs2"
          by (auto simp: organize_file_worker_def supported_def Let_def
              split: option.splits sum.splits)
        have two: "map_of fs2 q = map_of fs1 q \<or>
            (supported q \<and> (\<exists>n. map_of fs2 q = Some n \<and> \<not> is_dir_node n))"
        proof (cases copy_mode)
          case False
          with act have mv: "move L fs1 path ?tp = (e2, fs2)" by simp
          from b1 b(2) have "\<forall>w t. map_of fs1 path \<noteq> Some (Dir w t)"
            by (auto simp: is_dir_node_def)
          from move_effect [OF mv this \<open>supported path\<close> stp q] show ?thesis .
        next
          case True
          show ?thesis
          proof (cases "copy2 fs1 path ?tp")
            case (Inl e)
            with True act have "fs2 = fs1" by simp
            then show ?thesis by simp
          next
            case (Inr fs3)
            with True act have "fs2 = fs3" by simp
            have "supported (real_dst fs1 path ?tp)"
              using \<open>supported path\<close> stp name_real_dst [of fs1 path ?tp]
              by (auto simp: supported_def)
            with copy2_effect [OF Inr] \<open>fs2 = fs3\<close> show ?thesis
              by (cases "q = real_dst fs1 path ?tp") (auto simp: is_dir_node_def)
          qed
        qed
        with m1 [of q] \<open>fs' = fs2\<close> show ?thesis
          by (auto simp: step_ok_def)
      qed
    qed
  qed
qed

end
